theory Spec2Isabelle
  imports Main "HOL-Library.Char_ord" "HOL-Library.List_Lexorder"
begin

section \<open>dbreaker: a circuit breaker around a database/sql driver\<close>

text \<open>
  A shallow embedding of \<^verbatim>\<open>breaker.go\<close>. The package wraps a native
  \<^verbatim>\<open>database/sql\<close> driver by a driver (\<^verbatim>\<open>Breaker\<close>) whose
  \<^verbatim>\<open>down\<close> flag blocks \<^verbatim>\<open>Open\<close>, \<^verbatim>\<open>Prepare\<close>,
  \<^verbatim>\<open>Begin\<close> and \<^verbatim>\<open>BeginTx\<close>.

  The Go code works on pointers: \<^verbatim>\<open>NewDriver\<close> returns a \<^verbatim>\<open>*Breaker\<close>,
  and every \<^verbatim>\<open>Conn\<close> built by \<^verbatim>\<open>Open\<close> holds a closure over that
  pointer. The model therefore has an explicit store: the Breakers live in a list, a pointer
  is an index into it, and allocation appends. Everything outside the package (the registry
  of \<^verbatim>\<open>database/sql\<close>, the native driver and its connections) is a parameter:
  a record of functions that answer a call from the history of all calls made so far.
\<close>

subsection \<open>Errors\<close>

text \<open>
  A panic of the Go runtime is not an error value, but it is an outcome of a call; the
  model keeps the three panics the code can reach.
\<close>

datatype panic =
    NilDereference      \<comment> \<open>a method called through a pointer that holds no Breaker\<close>
  | NilMapAssignment    \<comment> \<open>\<^verbatim>\<open>w.dbs[name] = db\<close> on a nil map\<close>
  | RegisterTwice string  \<comment> \<open>\<^verbatim>\<open>sql.Register\<close> called for a name already registered\<close>

text \<open>
  \<^verbatim>\<open>ErrDown\<close> and \<^verbatim>\<open>ErrContext\<close> are the package's two error variables;
  \<open>ErrRegistered name\<close> is the value of
  \<^verbatim>\<open>fmt.Errorf("driver %q is already registered", name)\<close>; \<open>Native e\<close> is an
  error \<open>e\<close> that a call into \<^verbatim>\<open>database/sql\<close> or the native driver returned,
  handed on as it is.
\<close>

datatype 'e error =
    ErrDown
  | ErrContext
  | ErrRegistered string
  | Native 'e
  | Panic panic

text \<open>
  The text of an error (Go's \<^verbatim>\<open>Error()\<close> method). The verb \<^verbatim>\<open>%q\<close> of
  \<^verbatim>\<open>fmt\<close> (a Go-quoted string) and the text of a native error are not part of this
  package and are parameters.
\<close>

fun panic_text :: "panic \<Rightarrow> string" where
  "panic_text NilDereference =
     ''runtime error: invalid memory address or nil pointer dereference''"
| "panic_text NilMapAssignment = ''assignment to entry in nil map''"
| "panic_text (RegisterTwice name) = ''sql: Register called twice for driver '' @ name"

fun Error :: "(string \<Rightarrow> string) \<Rightarrow> ('e \<Rightarrow> string) \<Rightarrow> 'e error \<Rightarrow> string" where
  "Error quote native_text ErrDown = ''database is down''"
| "Error quote native_text ErrContext = ''context operations are not supported''"
| "Error quote native_text (ErrRegistered name) =
     ''driver '' @ quote name @ '' is already registered''"
| "Error quote native_text (Native e) = native_text e"
| "Error quote native_text (Panic p) = panic_text p"

text \<open>A Go result pair \<^verbatim>\<open>(T, error)\<close> with its two usual shapes.\<close>

fun native_result :: "'e + 'a \<Rightarrow> 'e error + 'a" where
  "native_result (Inl e) = Inl (Native e)"
| "native_result (Inr v) = Inr v"

subsection \<open>Data\<close>

text \<open>\<^verbatim>\<open>driver.TxOptions\<close>.\<close>

record TxOptions =
  Isolation :: int
  ReadOnly :: bool

text \<open>
  \<^verbatim>\<open>type Breaker struct { down bool; native string; dbs map[string]*sql.DB }\<close>.
  A Go map value can be nil: reading a nil map finds nothing, assigning to it panics.
  \<open>dbs = None\<close> is the nil map.
\<close>

record 'db Breaker =
  down :: bool
  native :: string
  dbs :: "(string \<rightharpoonup> 'db) option"

text \<open>
  \<^verbatim>\<open>type Conn struct { c driver.Conn; b driver.ConnBeginTx; db *sql.DB; down func() bool }\<close>.
  \<open>conn_b = None\<close> and \<open>conn_db = None\<close> are nil. The only closure the package ever
  stores in \<^verbatim>\<open>down\<close> is \<^verbatim>\<open>func() bool { return w.down }\<close>; it is
  represented by the pointer \<open>w\<close> it captures, and \<open>call_down\<close> below runs it.
\<close>

record ('db, 'c) Conn =
  conn_c :: 'c
  conn_b :: "'c option"
  conn_db :: "'db option"
  conn_down :: nat

text \<open>The calls that leave the package, in the order they are made.\<close>

datatype ('db, 'c, 'ctx) call =
    Call_sql_Open string string        \<comment> \<open>\<^verbatim>\<open>sql.Open(w.native, name)\<close>\<close>
  | Call_Driver_Open 'db string        \<comment> \<open>\<^verbatim>\<open>db.Driver().Open(name)\<close>\<close>
  | Call_Prepare 'c string             \<comment> \<open>\<^verbatim>\<open>c.c.Prepare(query)\<close>\<close>
  | Call_Close 'c                      \<comment> \<open>\<^verbatim>\<open>c.c.Close()\<close>\<close>
  | Call_Begin 'c                      \<comment> \<open>\<^verbatim>\<open>c.c.Begin()\<close>\<close>
  | Call_BeginTx 'c 'ctx TxOptions     \<comment> \<open>\<^verbatim>\<open>c.b.BeginTx(ctx, opts)\<close>\<close>

text \<open>
  The native side. Each function receives the calls made before this one, so a native
  driver may answer the same call differently at different times.
  \<open>is_ConnBeginTx c\<close> is the type assertion \<^verbatim>\<open>c.(driver.ConnBeginTx)\<close>.
\<close>

record ('e, 'db, 'c, 'stmt, 'tx, 'ctx) host =
  sql_Open :: "('db, 'c, 'ctx) call list \<Rightarrow> string \<Rightarrow> string \<Rightarrow> 'e + 'db"
  Driver_Open :: "('db, 'c, 'ctx) call list \<Rightarrow> 'db \<Rightarrow> string \<Rightarrow> 'e + 'c"
  is_ConnBeginTx :: "'c \<Rightarrow> bool"
  c_Prepare :: "('db, 'c, 'ctx) call list \<Rightarrow> 'c \<Rightarrow> string \<Rightarrow> 'e + 'stmt"
  c_Close :: "('db, 'c, 'ctx) call list \<Rightarrow> 'c \<Rightarrow> 'e option"
  c_Begin :: "('db, 'c, 'ctx) call list \<Rightarrow> 'c \<Rightarrow> 'e + 'tx"
  c_BeginTx :: "('db, 'c, 'ctx) call list \<Rightarrow> 'c \<Rightarrow> 'ctx \<Rightarrow> TxOptions \<Rightarrow> 'e + 'tx"

text \<open>
  What the registry of \<^verbatim>\<open>database/sql\<close> holds under a name: a Breaker of this
  package (by its pointer) or some other driver.
\<close>

datatype registered = Wrapper nat | Other_driver

text \<open>
  The state of the process: the registry of \<^verbatim>\<open>database/sql\<close>, the allocated
  Breakers, and the calls made so far.
\<close>

record ('db, 'c, 'ctx) world =
  drivers :: "(string \<times> registered) list"
  breakers :: "'db Breaker list"
  trace :: "('db, 'c, 'ctx) call list"

subsection \<open>The registry of database/sql\<close>

text \<open>
  \<^verbatim>\<open>sql.Drivers()\<close> returns the registered names, sorted.
  \<^verbatim>\<open>sql.Register\<close> panics when the name is taken (and when the driver is nil,
  which a \<open>registered\<close> value never is).
\<close>

definition sql_Drivers :: "('db, 'c, 'ctx) world \<Rightarrow> string list" where
  "sql_Drivers s = sort (map fst (drivers s))"

definition sql_Register ::
  "string \<Rightarrow> registered \<Rightarrow> ('db, 'c, 'ctx) world \<Rightarrow> ('db, 'c, 'ctx) world option" where
  "sql_Register name drv s =
     (if name \<in> fst ` set (drivers s) then None
      else Some (s\<lparr>drivers := drivers s @ [(name, drv)]\<rparr>))"

subsection \<open>NewDriver\<close>

text \<open>
  The loop \<^verbatim>\<open>for _, d := range sql.Drivers() { if d == name { return nil, ... } }\<close>:
  \<open>True\<close> when it returns from inside.
\<close>

fun already_registered :: "string \<Rightarrow> string list \<Rightarrow> bool" where
  "already_registered name [] = False"
| "already_registered name (d # ds) = (if d = name then True else already_registered name ds)"

definition NewDriver ::
  "string \<Rightarrow> string \<Rightarrow> ('db, 'c, 'ctx) world \<Rightarrow> ('e error + nat) \<times> ('db, 'c, 'ctx) world" where
  "NewDriver name native_name s =
     (if already_registered name (sql_Drivers s) then (Inl (ErrRegistered name), s)
      else
        let drv = length (breakers s);
            s1 = s\<lparr>breakers := breakers s @
                   [\<lparr>down = False, native = native_name, dbs = Some Map.empty\<rparr>]\<rparr>
        in case sql_Register name (Wrapper drv) s1 of
             None \<Rightarrow> (Inl (Panic (RegisterTwice name)), s1)
           | Some s2 \<Rightarrow> (Inr drv, s2))"

subsection \<open>Breaker\<close>

text \<open>\<^verbatim>\<open>func (w *Breaker) Disable(off bool) { w.down = off }\<close>\<close>

definition Disable ::
  "nat \<Rightarrow> bool \<Rightarrow> ('db, 'c, 'ctx) world \<Rightarrow> ('e error + unit) \<times> ('db, 'c, 'ctx) world" where
  "Disable w off s =
     (if w < length (breakers s)
      then (Inr (), s\<lparr>breakers := (breakers s)[w := (breakers s ! w)\<lparr>down := off\<rparr>]\<rparr>)
      else (Inl (Panic NilDereference), s))"

text \<open>
  \<^verbatim>\<open>Open\<close>, lines 63 to 86. \<open>Open_db\<close> is lines 67 to 75: the handle for
  \<open>name\<close>, from the cache or from \<^verbatim>\<open>sql.Open\<close>, which is then cached.
\<close>

definition Open_db ::
  "('e, 'db, 'c, 'stmt, 'tx, 'ctx) host \<Rightarrow> nat \<Rightarrow> string \<Rightarrow> ('db, 'c, 'ctx) world
     \<Rightarrow> ('e error + 'db) \<times> ('db, 'c, 'ctx) world" where
  "Open_db h w name s =
     (let br = breakers s ! w in
      case (case dbs br of None \<Rightarrow> None | Some m \<Rightarrow> m name) of
        Some db \<Rightarrow> (Inr db, s)
      | None \<Rightarrow>
          let s1 = s\<lparr>trace := trace s @ [Call_sql_Open (native br) name]\<rparr> in
          (case sql_Open h (trace s) (native br) name of
             Inl err \<Rightarrow> (Inl (Native err), s1)
           | Inr db \<Rightarrow>
               (case dbs br of
                  None \<Rightarrow> (Inl (Panic NilMapAssignment), s1)
                | Some m \<Rightarrow>
                    (Inr db, s1\<lparr>breakers := (breakers s1)[w := br\<lparr>dbs := Some (m(name \<mapsto> db))\<rparr>]\<rparr>))))"

definition Open ::
  "('e, 'db, 'c, 'stmt, 'tx, 'ctx) host \<Rightarrow> nat \<Rightarrow> string \<Rightarrow> ('db, 'c, 'ctx) world
     \<Rightarrow> ('e error + ('db, 'c) Conn) \<times> ('db, 'c, 'ctx) world" where
  "Open h w name s =
     (if \<not> w < length (breakers s) then (Inl (Panic NilDereference), s)
      else if down (breakers s ! w) then (Inl ErrDown, s)
      else
        case Open_db h w name s of
          (Inl err, s1) \<Rightarrow> (Inl err, s1)
        | (Inr db, s1) \<Rightarrow>
            let s2 = s1\<lparr>trace := trace s1 @ [Call_Driver_Open db name]\<rparr> in
            (case Driver_Open h (trace s1) db name of
               Inl err \<Rightarrow> (Inl (Native err), s2)
             | Inr c \<Rightarrow>
                 (Inr \<lparr>conn_c = c,
                       conn_b = (if is_ConnBeginTx h c then Some c else None),
                       conn_db = None,
                       conn_down = w\<rparr>, s2)))"

subsection \<open>Conn\<close>

text \<open>
  Running the closure \<^verbatim>\<open>func() bool { return w.down }\<close> of a connection in the
  state \<open>s\<close>: \<open>None\<close> when the captured pointer holds no Breaker (the read panics).
\<close>

definition call_down :: "('db, 'c) Conn \<Rightarrow> ('db, 'c, 'ctx) world \<Rightarrow> bool option" where
  "call_down cn s =
     (if conn_down cn < length (breakers s) then Some (down (breakers s ! conn_down cn))
      else None)"

definition Prepare ::
  "('e, 'db, 'c, 'stmt, 'tx, 'ctx) host \<Rightarrow> ('db, 'c) Conn \<Rightarrow> string \<Rightarrow> ('db, 'c, 'ctx) world
     \<Rightarrow> ('e error + 'stmt) \<times> ('db, 'c, 'ctx) world" where
  "Prepare h cn query s =
     (case call_down cn s of
        None \<Rightarrow> (Inl (Panic NilDereference), s)
      | Some True \<Rightarrow> (Inl ErrDown, s)
      | Some False \<Rightarrow>
          (native_result (c_Prepare h (trace s) (conn_c cn) query),
           s\<lparr>trace := trace s @ [Call_Prepare (conn_c cn) query]\<rparr>))"

definition Close ::
  "('e, 'db, 'c, 'stmt, 'tx, 'ctx) host \<Rightarrow> ('db, 'c) Conn \<Rightarrow> ('db, 'c, 'ctx) world
     \<Rightarrow> 'e error option \<times> ('db, 'c, 'ctx) world" where
  "Close h cn s =
     (map_option Native (c_Close h (trace s) (conn_c cn)),
      s\<lparr>trace := trace s @ [Call_Close (conn_c cn)]\<rparr>)"

definition Begin ::
  "('e, 'db, 'c, 'stmt, 'tx, 'ctx) host \<Rightarrow> ('db, 'c) Conn \<Rightarrow> ('db, 'c, 'ctx) world
     \<Rightarrow> ('e error + 'tx) \<times> ('db, 'c, 'ctx) world" where
  "Begin h cn s =
     (case call_down cn s of
        None \<Rightarrow> (Inl (Panic NilDereference), s)
      | Some True \<Rightarrow> (Inl ErrDown, s)
      | Some False \<Rightarrow>
          (native_result (c_Begin h (trace s) (conn_c cn)),
           s\<lparr>trace := trace s @ [Call_Begin (conn_c cn)]\<rparr>))"

definition BeginTx ::
  "('e, 'db, 'c, 'stmt, 'tx, 'ctx) host \<Rightarrow> ('db, 'c) Conn \<Rightarrow> 'ctx \<Rightarrow> TxOptions
     \<Rightarrow> ('db, 'c, 'ctx) world \<Rightarrow> ('e error + 'tx) \<times> ('db, 'c, 'ctx) world" where
  "BeginTx h cn ctx opts s =
     (case call_down cn s of
        None \<Rightarrow> (Inl (Panic NilDereference), s)
      | Some True \<Rightarrow> (Inl ErrDown, s)
      | Some False \<Rightarrow>
          (case conn_b cn of
             None \<Rightarrow> (Inl ErrContext, s)
           | Some b \<Rightarrow>
               (native_result (c_BeginTx h (trace s) b ctx opts),
                s\<lparr>trace := trace s @ [Call_BeginTx b ctx opts]\<rparr>)))"

subsection \<open>Runs\<close>

text \<open>
  What a program may do with the package, one call at a time, and the state after a
  sequence of such calls (the results are dropped, the effects are kept).
\<close>

datatype ('db, 'c, 'ctx) op =
    Op_NewDriver string string
  | Op_Disable nat bool
  | Op_Open nat string
  | Op_Prepare "('db, 'c) Conn" string
  | Op_Close "('db, 'c) Conn"
  | Op_Begin "('db, 'c) Conn"
  | Op_BeginTx "('db, 'c) Conn" 'ctx TxOptions

fun step ::
  "('e, 'db, 'c, 'stmt, 'tx, 'ctx) host \<Rightarrow> ('db, 'c, 'ctx) op \<Rightarrow> ('db, 'c, 'ctx) world
     \<Rightarrow> ('db, 'c, 'ctx) world" where
  "step h (Op_NewDriver name native_name) s =
     snd (NewDriver name native_name s :: ('e error + nat) \<times> ('db, 'c, 'ctx) world)"
| "step h (Op_Disable w off) s =
     snd (Disable w off s :: ('e error + unit) \<times> ('db, 'c, 'ctx) world)"
| "step h (Op_Open w name) s = snd (Open h w name s)"
| "step h (Op_Prepare cn query) s = snd (Prepare h cn query s)"
| "step h (Op_Close cn) s = snd (Close h cn s)"
| "step h (Op_Begin cn) s = snd (Begin h cn s)"
| "step h (Op_BeginTx cn ctx opts) s = snd (BeginTx h cn ctx opts s)"


text \<open>The handle that the Breaker at \<open>w\<close> has cached for a data source name, if any.\<close>

definition cached :: "('db, 'c, 'ctx) world \<Rightarrow> nat \<Rightarrow> string \<Rightarrow> 'db option" where
  "cached s w name =
     (if w < length (breakers s)
      then (case dbs (breakers s ! w) of None \<Rightarrow> None | Some m \<Rightarrow> m name)
      else None)"

subsection \<open>Open, one statement at a time\<close>

text \<open>
  Nothing in \<^verbatim>\<open>breaker.go\<close> locks: \<^verbatim>\<open>database/sql\<close> may call
  \<^verbatim>\<open>Open\<close> from several goroutines, and their statements may then interleave.
  \<open>Open_step\<close> runs one call of \<^verbatim>\<open>Open\<close> up to its next access to the
  Breaker or to the native side; an \<open>open_call\<close> says where the call stands and what it
  holds in its local \<^verbatim>\<open>db\<close>: before the test of \<^verbatim>\<open>w.down\<close> (line 64),
  before the map read (67), before \<^verbatim>\<open>sql.Open\<close> (70), before the map
  assignment (74), before \<^verbatim>\<open>db.Driver().Open\<close> (77), or returned. Each step
  is taken as atomic.
\<close>

datatype ('e, 'db, 'c) open_call =
    At_flag
  | At_lookup
  | At_sql_Open
  | At_insert 'db
  | At_Driver_Open 'db
  | Returned "'e error + ('db, 'c) Conn"

fun Open_step ::
  "('e, 'db, 'c, 'stmt, 'tx, 'ctx) host \<Rightarrow> nat \<Rightarrow> string \<Rightarrow> ('e, 'db, 'c) open_call
     \<Rightarrow> ('db, 'c, 'ctx) world \<Rightarrow> ('e, 'db, 'c) open_call \<times> ('db, 'c, 'ctx) world" where
  "Open_step h w name At_flag s =
     (if \<not> w < length (breakers s) then (Returned (Inl (Panic NilDereference)), s)
      else if down (breakers s ! w) then (Returned (Inl ErrDown), s)
      else (At_lookup, s))"
| "Open_step h w name At_lookup s =
     (case (case dbs (breakers s ! w) of None \<Rightarrow> None | Some m \<Rightarrow> m name) of
        Some db \<Rightarrow> (At_Driver_Open db, s)
      | None \<Rightarrow> (At_sql_Open, s))"
| "Open_step h w name At_sql_Open s =
     (let s1 = s\<lparr>trace := trace s @ [Call_sql_Open (native (breakers s ! w)) name]\<rparr> in
      case sql_Open h (trace s) (native (breakers s ! w)) name of
        Inl err \<Rightarrow> (Returned (Inl (Native err)), s1)
      | Inr db \<Rightarrow> (At_insert db, s1))"
| "Open_step h w name (At_insert db) s =
     (case dbs (breakers s ! w) of
        None \<Rightarrow> (Returned (Inl (Panic NilMapAssignment)), s)
      | Some m \<Rightarrow>
          (At_Driver_Open db,
           s\<lparr>breakers := (breakers s)[w := (breakers s ! w)\<lparr>dbs := Some (m(name \<mapsto> db))\<rparr>]\<rparr>))"
| "Open_step h w name (At_Driver_Open db) s =
     (let s2 = s\<lparr>trace := trace s @ [Call_Driver_Open db name]\<rparr> in
      case Driver_Open h (trace s) db name of
        Inl err \<Rightarrow> (Returned (Inl (Native err)), s2)
      | Inr c \<Rightarrow>
          (Returned (Inr \<lparr>conn_c = c,
                          conn_b = (if is_ConnBeginTx h c then Some c else None),
                          conn_db = None,
                          conn_down = w\<rparr>), s2))"
| "Open_step h w name (Returned r) s = (Returned r, s)"

text \<open>
  Two calls \<^verbatim>\<open>w.Open(name)\<close> in flight; the schedule says which of them takes
  the next step.
\<close>

datatype caller = First | Second

fun interleave ::
  "('e, 'db, 'c, 'stmt, 'tx, 'ctx) host \<Rightarrow> nat \<Rightarrow> string \<Rightarrow> caller list
     \<Rightarrow> ('e, 'db, 'c) open_call \<times> ('e, 'db, 'c) open_call \<times> ('db, 'c, 'ctx) world
     \<Rightarrow> ('e, 'db, 'c) open_call \<times> ('e, 'db, 'c) open_call \<times> ('db, 'c, 'ctx) world" where
  "interleave h w name [] cfg = cfg"
| "interleave h w name (First # sched) (a, b, s) =
     (case Open_step h w name a s of (a', s') \<Rightarrow> interleave h w name sched (a', b, s'))"
| "interleave h w name (Second # sched) (a, b, s) =
     (case Open_step h w name b s of (b', s') \<Rightarrow> interleave h w name sched (a, b', s'))"

subsection \<open>A native driver to run the model on\<close>

text \<open>
  A small stand-in for a native driver, used to evaluate the definitions at concrete
  inputs. Handles, connections and transactions are numbered by the length of the
  history; \<open>cap\<close> says whether its connections implement
  \<^verbatim>\<open>driver.ConnBeginTx\<close>.
\<close>

definition stub :: "bool \<Rightarrow> (string, nat, nat, string, nat, unit) host" where
  "stub cap =
     \<lparr>sql_Open = (\<lambda>tr drv name.
        if drv = ''sqlite3'' then Inr (length tr) else Inl ''sql: unknown driver''),
      Driver_Open = (\<lambda>tr db name.
        if name = [] then Inl ''unable to open database file'' else Inr (length tr)),
      is_ConnBeginTx = (\<lambda>c. cap),
      c_Prepare = (\<lambda>tr c query. if query = [] then Inl ''incomplete input'' else Inr query),
      c_Close = (\<lambda>tr c. None),
      c_Begin = (\<lambda>tr c. Inr (length tr)),
      c_BeginTx = (\<lambda>tr c ctx opts.
        if ReadOnly opts then Inl ''read-only transactions are not supported''
        else Inr (length tr))\<rparr>"

text \<open>A process in which only the native driver is registered.\<close>

definition world0 :: "(nat, nat, unit) world" where
  "world0 = \<lparr>drivers = [(''sqlite3'', Other_driver)], breakers = [], trace = []\<rparr>"

text \<open>
  The same process after \<^verbatim>\<open>NewDriver("wrapper", nn)\<close>, the connection that
  \<^verbatim>\<open>Open("test.db")\<close> then returns over the native driver \<^verbatim>\<open>sqlite3\<close>,
  and the state this leaves.
\<close>

definition world1 :: "string \<Rightarrow> (nat, nat, unit) world" where
  "world1 nn =
     \<lparr>drivers = [(''sqlite3'', Other_driver), (''wrapper'', Wrapper 0)],
      breakers = [\<lparr>down = False, native = nn, dbs = Some Map.empty\<rparr>],
      trace = []\<rparr>"

definition conn1 :: "bool \<Rightarrow> (nat, nat) Conn" where
  "conn1 cap =
     \<lparr>conn_c = 1, conn_b = (if cap then Some 1 else None), conn_db = None, conn_down = 0\<rparr>"

definition world2 :: "(nat, nat, unit) world" where
  "world2 =
     \<lparr>drivers = [(''sqlite3'', Other_driver), (''wrapper'', Wrapper 0)],
      breakers = [\<lparr>down = False, native = ''sqlite3'', dbs = Some [''test.db'' \<mapsto> 0]\<rparr>],
      trace = [Call_sql_Open ''sqlite3'' ''test.db'', Call_Driver_Open 0 ''test.db'']\<rparr>"

section \<open>Properties\<close>

subsection \<open>Auxiliary facts\<close>

lemma already_registered_iff: "already_registered name ds = (name \<in> set ds)"
  by (induction ds) auto

lemma registered_Drivers:
  "already_registered name (sql_Drivers s) = (name \<in> fst ` set (drivers s))"
  by (simp add: already_registered_iff sql_Drivers_def)


















lemma Open_Inr:
  assumes "Open h w name s = (Inr cn, s1)"
  shows "w < length (breakers s) \<and> \<not> down (breakers s ! w) \<and> conn_down cn = w \<and>
         conn_db cn = None \<and>
         conn_b cn = (if is_ConnBeginTx h (conn_c cn) then Some (conn_c cn) else None)"
  using assms by (auto simp: Open_def Let_def split: if_splits prod.splits sum.splits)



lemma NewDriver_world0: "NewDriver ''wrapper'' nn world0 = (Inr 0, world1 nn)"
  by (simp add: NewDriver_def registered_Drivers sql_Register_def world0_def world1_def)

lemma Open_world1:
  "Open (stub cap) 0 ''test.db'' (world1 ''sqlite3'') = (Inr (conn1 cap), world2)"
  by (simp add: Open_def Open_db_def stub_def world1_def world2_def conn1_def)

lemma Prepare_gate:
  "conn_down cn < length (breakers s) \<Longrightarrow>
   Prepare h cn q s =
     (if down (breakers s ! conn_down cn) then (Inl ErrDown, s)
      else (native_result (c_Prepare h (trace s) (conn_c cn) q),
            s\<lparr>trace := trace s @ [Call_Prepare (conn_c cn) q]\<rparr>))"
  by (simp add: Prepare_def call_down_def)

lemma Begin_gate:
  "conn_down cn < length (breakers s) \<Longrightarrow>
   Begin h cn s =
     (if down (breakers s ! conn_down cn) then (Inl ErrDown, s)
      else (native_result (c_Begin h (trace s) (conn_c cn)),
            s\<lparr>trace := trace s @ [Call_Begin (conn_c cn)]\<rparr>))"
  by (simp add: Begin_def call_down_def)

lemma BeginTx_gate:
  "conn_down cn < length (breakers s) \<Longrightarrow>
   BeginTx h cn ctx opts s =
     (if down (breakers s ! conn_down cn) then (Inl ErrDown, s)
      else case conn_b cn of
             None \<Rightarrow> (Inl ErrContext, s)
           | Some b \<Rightarrow> (native_result (c_BeginTx h (trace s) b ctx opts),
                        s\<lparr>trace := trace s @ [Call_BeginTx b ctx opts]\<rparr>))"
  by (simp add: BeginTx_def call_down_def)

lemma native_result_not_own:
  "native_result r \<noteq> Inl ErrDown" "native_result r \<noteq> Inl ErrContext"
  by (cases r; simp)+

lemma Open_db_probe: "Open_db (h\<lparr>is_ConnBeginTx := p\<rparr>) w name s = Open_db h w name s"
  by (simp add: Open_db_def Let_def cong: option.case_cong)








text \<open>Taken in order, with nothing in between, the steps are \<open>Open\<close>.\<close>

lemma Open_steps_in_order:
  "interleave h w name [First, First, First, First, First] (At_flag, b, s) =
     (Returned (fst (Open h w name s)), b, snd (Open h w name s))"
proof (cases "w < length (breakers s) \<and> \<not> down (breakers s ! w)")
  case False
  then show ?thesis by (auto simp: Open_def)
next
  case up: True
  show ?thesis
  proof (cases "case dbs (breakers s ! w) of None \<Rightarrow> None | Some m \<Rightarrow> m name")
    case (Some db)
    with up show ?thesis
      by (cases "Driver_Open h (trace s) db name") (simp_all add: Open_def Open_db_def Let_def)
  next
    case miss: None
    show ?thesis
    proof (cases "sql_Open h (trace s) (native (breakers s ! w)) name")
      case (Inl err)
      with up miss show ?thesis
        by (simp add: Open_def Open_db_def Let_def)
    next
      case (Inr db)
      show ?thesis
      proof (cases "dbs (breakers s ! w)")
        case None
        with up miss Inr show ?thesis
          by (simp add: Open_def Open_db_def Let_def)
      next
        case (Some m)
        with up miss Inr show ?thesis
          by (cases "Driver_Open h
                (trace s @ [Call_sql_Open (native (breakers s ! w)) name]) db name")
            (simp_all add: Open_def Open_db_def Let_def)
      qed
    qed
  qed
qed

subsection \<open>Open while the Breaker is down\<close>

text \<open>
  C2. For every data source name, \<^verbatim>\<open>Open\<close> on a Breaker that is down returns
  \<^verbatim>\<open>ErrDown\<close> and leaves the whole state as it was: the cache of handles is
  not changed and no call leaves the package (the history of calls is the same), so
  \<^verbatim>\<open>sql.Open\<close> is not invoked.
\<close>

theorem Open_disabled:
  assumes "w < length (breakers s)" and "down (breakers s ! w)"
  shows "Open h w name s = (Inl ErrDown, s)"
  using assms by (simp add: Open_def)

theorem Open_disabled_witness:
  "Open (stub True) 0 ''test.db'' (step (stub True) (Op_Disable 0 True) (world1 ''sqlite3'')) =
     (Inl ErrDown, step (stub True) (Op_Disable 0 True) (world1 ''sqlite3'')) \<and>
   trace (snd (Open (stub True) 0 ''test.db''
     (step (stub True) (Op_Disable 0 True) (world1 ''sqlite3'')))) = [] \<and>
   cached (snd (Open (stub True) 0 ''test.db''
     (step (stub True) (Op_Disable 0 True) (world1 ''sqlite3'')))) 0 ''test.db'' = None"
proof -
  let ?s = "step (stub True) (Op_Disable 0 True) (world1 ''sqlite3'')"
  have 1: "0 < length (breakers ?s)" and 2: "down (breakers ?s ! 0)"
    by (simp_all add: Disable_def world1_def)
  from Open_disabled [OF 1 2, of "stub True" "''test.db''"] show ?thesis
    by (simp add: Disable_def world1_def cached_def)
qed

subsection \<open>Close\<close>

text \<open>
  C6. For every connection and every state of the Breaker, \<^verbatim>\<open>Close\<close> calls the
  native connection's \<^verbatim>\<open>Close\<close> and returns what that returns; it does not read
  the flag and never returns \<^verbatim>\<open>ErrDown\<close>.
\<close>

theorem Close_not_gated:
  "Close h cn s =
     (map_option Native (c_Close h (trace s) (conn_c cn)),
      s\<lparr>trace := trace s @ [Call_Close (conn_c cn)]\<rparr>) \<and>
   fst (Close h cn s) \<noteq> Some ErrDown"
  by (auto simp add: Close_def)

theorem Close_not_gated_witness:
  "Close (stub True) (conn1 True) (step (stub True) (Op_Disable 0 True) world2) =
     (None, (step (stub True) (Op_Disable 0 True) world2)\<lparr>trace := trace world2 @ [Call_Close 1]\<rparr>) \<and>
   down (breakers (step (stub True) (Op_Disable 0 True) world2) ! 0)"
  using Close_not_gated [of "stub True" "conn1 True" "step (stub True) (Op_Disable 0 True) world2"]
  by (simp add: stub_def conn1_def world2_def Disable_def)

subsection \<open>A failing sql.Open\<close>

text \<open>
  C7. When the Breaker is up, the name is not in the cache and \<^verbatim>\<open>sql.Open\<close>
  fails, \<^verbatim>\<open>Open\<close> returns that error as it is; the state differs only by the
  recorded call, so nothing is cached under the name.
\<close>

theorem Open_native_failure:
  assumes "w < length (breakers s)" and "\<not> down (breakers s ! w)"
    and "cached s w name = None"
    and "sql_Open h (trace s) (native (breakers s ! w)) name = Inl err"
  shows "Open h w name s =
           (Inl (Native err),
            s\<lparr>trace := trace s @ [Call_sql_Open (native (breakers s ! w)) name]\<rparr>) \<and>
         cached (snd (Open h w name s)) w name = None"
  using assms by (simp add: Open_def Open_db_def cached_def Let_def split: option.splits)

theorem Open_native_failure_witness:
  "Open (stub True) 0 ''test.db'' (world1 ''mysql'') =
     (Inl (Native ''sql: unknown driver''),
      (world1 ''mysql'')\<lparr>trace := [Call_sql_Open ''mysql'' ''test.db'']\<rparr>)"
proof -
  have "0 < length (breakers (world1 ''mysql''))"
    "\<not> down (breakers (world1 ''mysql'') ! 0)"
    "cached (world1 ''mysql'') 0 ''test.db'' = None"
    "sql_Open (stub True) (trace (world1 ''mysql''))
       (native (breakers (world1 ''mysql'') ! 0)) ''test.db'' = Inl ''sql: unknown driver''"
    by (simp_all add: world1_def cached_def stub_def)
  from Open_native_failure [OF this] show ?thesis
    by (simp add: world1_def)
qed

subsection \<open>NewDriver\<close>

text \<open>
  C8. \<^verbatim>\<open>NewDriver\<close> fails, with the error that names the driver as already
  registered, exactly when the registry of \<^verbatim>\<open>database/sql\<close> holds the name; the
  state is then unchanged (nothing is allocated or registered). Otherwise it allocates a
  Breaker that is up, has the native driver's name and an empty cache, registers it under
  the name and returns it.
\<close>

theorem NewDriver_registers:
  "(name \<in> fst ` set (drivers s) \<longrightarrow>
      NewDriver name nn s = (Inl (ErrRegistered name), s)) \<and>
   (name \<notin> fst ` set (drivers s) \<longrightarrow>
      NewDriver name nn s =
        (Inr (length (breakers s)),
         s\<lparr>breakers := breakers s @ [\<lparr>down = False, native = nn, dbs = Some Map.empty\<rparr>],
           drivers := drivers s @ [(name, Wrapper (length (breakers s)))]\<rparr>))"
  by (simp add: NewDriver_def registered_Drivers sql_Register_def Let_def)

theorem NewDriver_registers_witness:
  "NewDriver ''wrapper'' ''sqlite3'' world0 = (Inr 0, world1 ''sqlite3'') \<and>
   NewDriver ''wrapper'' ''sqlite3'' (world1 ''sqlite3'') =
     (Inl (ErrRegistered ''wrapper''), world1 ''sqlite3'') \<and>
   cached (world1 ''sqlite3'') 0 ''test.db'' = None"
  using NewDriver_registers [of "''wrapper''" world0 "''sqlite3''"]
    NewDriver_registers [of "''wrapper''" "world1 ''sqlite3''" "''sqlite3''"]
  by (simp add: world0_def world1_def cached_def)

subsection \<open>The two error variables\<close>

text \<open>
  C9, as the specification states it, gives the texts "access is disabled" and
  "context-based transaction begin not supported by the underlying connection" to the two
  errors. The code's \<^verbatim>\<open>ErrDown\<close> and \<^verbatim>\<open>ErrContext\<close> read otherwise.
\<close>

theorem sentinel_texts_counterexample:
  "Error id id (ErrDown :: string error) = ''database is down'' \<and>
   Error id id (ErrDown :: string error) \<noteq> ''access is disabled'' \<and>
   Error id id (ErrContext :: string error) = ''context operations are not supported'' \<and>
   Error id id (ErrContext :: string error) \<noteq>
     ''context-based transaction begin not supported by the underlying connection''"
  by simp

text \<open>
  C9, amended. \<^verbatim>\<open>ErrDown\<close> reads "database is down" and \<^verbatim>\<open>ErrContext\<close>
  reads "context operations are not supported"; \<^verbatim>\<open>ErrDown\<close> is what
  \<^verbatim>\<open>Open\<close>, \<^verbatim>\<open>Prepare\<close>, \<^verbatim>\<open>Begin\<close> and \<^verbatim>\<open>BeginTx\<close>
  return while the Breaker is down, and \<^verbatim>\<open>ErrContext\<close> is what
  \<^verbatim>\<open>BeginTx\<close> returns when the Breaker is up and the connection has no
  \<^verbatim>\<open>driver.ConnBeginTx\<close>.
\<close>

theorem sentinel_texts:
  "Error quote native_text ErrDown = ''database is down'' \<and>
   Error quote native_text ErrContext = ''context operations are not supported'' \<and>
   (w < length (breakers s) \<and> down (breakers s ! w) \<longrightarrow> fst (Open h w name s) = Inl ErrDown) \<and>
   (call_down cn s = Some True \<longrightarrow>
      fst (Prepare h cn q s) = Inl ErrDown \<and> fst (Begin h cn s) = Inl ErrDown \<and>
      fst (BeginTx h cn ctx opts s) = Inl ErrDown) \<and>
   (call_down cn s = Some False \<and> conn_b cn = None \<longrightarrow>
      fst (BeginTx h cn ctx opts s) = Inl ErrContext)"
  by (simp add: Open_def Prepare_def Begin_def BeginTx_def)

theorem sentinel_texts_witness:
  "Error id id (ErrDown :: string error) = ''database is down'' \<and>
   Error id id (ErrContext :: string error) = ''context operations are not supported'' \<and>
   fst (Open (stub False) 0 ''test.db'' (step (stub False) (Op_Disable 0 True) world2)) = Inl ErrDown \<and>
   fst (Prepare (stub False) (conn1 False) ''select 1''
     (step (stub False) (Op_Disable 0 True) world2)) = Inl ErrDown \<and>
   fst (Begin (stub False) (conn1 False) (step (stub False) (Op_Disable 0 True) world2)) = Inl ErrDown \<and>
   fst (BeginTx (stub False) (conn1 False) () \<lparr>Isolation = 0, ReadOnly = False\<rparr>
     (step (stub False) (Op_Disable 0 True) world2)) = Inl ErrDown \<and>
   fst (BeginTx (stub False) (conn1 False) () \<lparr>Isolation = 0, ReadOnly = False\<rparr> world2) =
     Inl ErrContext"
proof -
  let ?sd = "step (stub False) (Op_Disable 0 True) world2"
  have d: "0 < length (breakers ?sd) \<and> down (breakers ?sd ! 0)"
    "call_down (conn1 False) ?sd = Some True"
    and u: "call_down (conn1 False) world2 = Some False \<and> conn_b (conn1 False) = None"
    by (simp_all add: Disable_def world2_def conn1_def call_down_def)
  from sentinel_texts [of id id 0 ?sd "stub False" "''test.db''" "conn1 False" "''select 1''"
      "()" "\<lparr>Isolation = 0, ReadOnly = False\<rparr>"]
    sentinel_texts [of id id 0 world2 "stub False" "''test.db''" "conn1 False" "''select 1''"
      "()" "\<lparr>Isolation = 0, ReadOnly = False\<rparr>"]
    d u
  show ?thesis by simp
qed

subsection \<open>BeginTx\<close>

text \<open>
  C4. On a connection that \<^verbatim>\<open>Open\<close> returned, in any state in which its Breaker
  exists, \<^verbatim>\<open>BeginTx\<close> returns \<^verbatim>\<open>ErrDown\<close> when the Breaker is down;
  otherwise \<^verbatim>\<open>ErrContext\<close> when the native connection does not implement
  \<^verbatim>\<open>driver.ConnBeginTx\<close>; otherwise it calls the native connection's
  \<^verbatim>\<open>BeginTx\<close> with the caller's context and options and returns its result or
  error as it is.
\<close>

theorem BeginTx_order:
  assumes "Open h w name s0 = (Inr cn, s1)" and "w < length (breakers s)"
  shows "BeginTx h cn ctx opts s =
           (if down (breakers s ! w) then (Inl ErrDown, s)
            else if \<not> is_ConnBeginTx h (conn_c cn) then (Inl ErrContext, s)
            else (native_result (c_BeginTx h (trace s) (conn_c cn) ctx opts),
                  s\<lparr>trace := trace s @ [Call_BeginTx (conn_c cn) ctx opts]\<rparr>))"
proof -
  from Open_Inr [OF assms(1)] have "conn_down cn = w"
    and "conn_b cn = (if is_ConnBeginTx h (conn_c cn) then Some (conn_c cn) else None)"
    by simp_all
  with assms(2) show ?thesis
    by (simp add: BeginTx_gate)
qed

theorem BeginTx_order_witness:
  "BeginTx (stub True) (conn1 True) () \<lparr>Isolation = 0, ReadOnly = False\<rparr> world2 =
     (Inr 2, world2\<lparr>trace := trace world2 @
        [Call_BeginTx 1 () \<lparr>Isolation = 0, ReadOnly = False\<rparr>]\<rparr>) \<and>
   BeginTx (stub True) (conn1 True) () \<lparr>Isolation = 0, ReadOnly = True\<rparr> world2 =
     (Inl (Native ''read-only transactions are not supported''),
      world2\<lparr>trace := trace world2 @
        [Call_BeginTx 1 () \<lparr>Isolation = 0, ReadOnly = True\<rparr>]\<rparr>) \<and>
   BeginTx (stub False) (conn1 False) () \<lparr>Isolation = 0, ReadOnly = False\<rparr> world2 =
     (Inl ErrContext, world2) \<and>
   BeginTx (stub True) (conn1 True) () \<lparr>Isolation = 0, ReadOnly = False\<rparr>
       (step (stub True) (Op_Disable 0 True) world2) =
     (Inl ErrDown, step (stub True) (Op_Disable 0 True) world2)"
proof -
  have l: "0 < length (breakers world2)"
    "0 < length (breakers (step (stub True) (Op_Disable 0 True) world2))"
    by (simp_all add: world2_def Disable_def)
  note t = BeginTx_order [OF Open_world1 l(1), of True] BeginTx_order [OF Open_world1 l(1), of False]
    BeginTx_order [OF Open_world1 l(2), of True]
  show ?thesis
    by (simp only: t) (simp add: stub_def conn1_def world2_def Disable_def)
qed

text \<open>
  C5, as the specification states it, says that \<^verbatim>\<open>BeginTx\<close> on a connection
  without \<^verbatim>\<open>driver.ConnBeginTx\<close> returns \<^verbatim>\<open>ErrContext\<close> whatever the
  state of the Breaker. The flag is read first: while the Breaker is down the result is
  \<^verbatim>\<open>ErrDown\<close>.
\<close>

theorem BeginTx_no_capability_counterexample:
  "Open (stub False) 0 ''test.db'' (world1 ''sqlite3'') = (Inr (conn1 False), world2) \<and>
   \<not> is_ConnBeginTx (stub False) (conn_c (conn1 False)) \<and>
   fst (BeginTx (stub False) (conn1 False) () \<lparr>Isolation = 0, ReadOnly = False\<rparr>
     (step (stub False) (Op_Disable 0 True) world2)) = Inl ErrDown \<and>
   fst (BeginTx (stub False) (conn1 False) () \<lparr>Isolation = 0, ReadOnly = False\<rparr>
     (step (stub False) (Op_Disable 0 True) world2)) \<noteq> Inl ErrContext"
  by (simp add: Open_world1) (simp add: stub_def conn1_def world2_def Disable_def BeginTx_def call_down_def)

text \<open>
  C5, amended. On a connection that \<^verbatim>\<open>Open\<close> returned over a native connection
  without \<^verbatim>\<open>driver.ConnBeginTx\<close>, \<^verbatim>\<open>BeginTx\<close> returns
  \<^verbatim>\<open>ErrContext\<close> whenever the Breaker is up at the call, and
  \<^verbatim>\<open>ErrDown\<close> whenever it is down.
\<close>

theorem BeginTx_no_capability:
  assumes "Open h w name s0 = (Inr cn, s1)" and "\<not> is_ConnBeginTx h (conn_c cn)"
    and "w < length (breakers s)"
  shows "BeginTx h cn ctx opts s =
           (if down (breakers s ! w) then (Inl ErrDown, s) else (Inl ErrContext, s))"
proof -
  from Open_Inr [OF assms(1)] assms(2) have "conn_down cn = w" and "conn_b cn = None"
    by simp_all
  with assms(3) show ?thesis
    by (simp add: BeginTx_gate)
qed

theorem BeginTx_no_capability_witness:
  "BeginTx (stub False) (conn1 False) () \<lparr>Isolation = 0, ReadOnly = False\<rparr> world2 =
     (Inl ErrContext, world2) \<and>
   BeginTx (stub False) (conn1 False) () \<lparr>Isolation = 0, ReadOnly = False\<rparr>
       (step (stub False) (Op_Disable 0 True) world2) =
     (Inl ErrDown, step (stub False) (Op_Disable 0 True) world2)"
proof -
  have c: "\<not> is_ConnBeginTx (stub False) (conn_c (conn1 False))"
    by (simp add: stub_def)
  have l: "0 < length (breakers world2)"
    "0 < length (breakers (step (stub False) (Op_Disable 0 True) world2))"
    by (simp_all add: world2_def Disable_def)
  note t = BeginTx_no_capability [OF Open_world1 c l(1)] BeginTx_no_capability [OF Open_world1 c l(2)]
  show ?thesis
    by (simp only: t) (simp add: world2_def Disable_def)
qed


subsection \<open>The capability probe\<close>

text \<open>
  C10. Whether the native connection implements \<^verbatim>\<open>driver.ConnBeginTx\<close> has no
  influence on the success of \<^verbatim>\<open>Open\<close> nor on the state it leaves: when the
  Breaker is up, a handle is found or made and the native driver opens a connection,
  \<^verbatim>\<open>Open\<close> returns a \<^verbatim>\<open>Conn\<close> around it, with the capability recorded.
  \<^verbatim>\<open>Open\<close>, \<^verbatim>\<open>Prepare\<close>, \<^verbatim>\<open>Begin\<close> and \<^verbatim>\<open>Close\<close>
  never return \<^verbatim>\<open>ErrContext\<close>. On a connection that \<^verbatim>\<open>Open\<close> returned
  over a native connection without the capability, while the Breaker is up,
  \<^verbatim>\<open>Prepare\<close> and \<^verbatim>\<open>Begin\<close> call the native connection and only
  \<^verbatim>\<open>BeginTx\<close> returns \<^verbatim>\<open>ErrContext\<close>.
\<close>

theorem capability_probe_never_fails:
  "isl (fst (Open (h\<lparr>is_ConnBeginTx := p\<rparr>) w name s)) = isl (fst (Open h w name s)) \<and>
   snd (Open (h\<lparr>is_ConnBeginTx := p\<rparr>) w name s) = snd (Open h w name s) \<and>
   fst (Open h w name s) \<noteq> Inl ErrContext \<and>
   fst (Prepare h cn q s) \<noteq> Inl ErrContext \<and>
   fst (Begin h cn s) \<noteq> Inl ErrContext \<and>
   fst (Close h cn s) \<noteq> Some ErrContext \<and>
   (w < length (breakers s0) \<and> \<not> down (breakers s0 ! w) \<and>
    Open_db h w name s0 = (Inr db, s') \<and> Driver_Open h (trace s') db name = Inr c \<longrightarrow>
      Open h w name s0 =
        (Inr \<lparr>conn_c = c, conn_b = (if is_ConnBeginTx h c then Some c else None),
              conn_db = None, conn_down = w\<rparr>,
         s'\<lparr>trace := trace s' @ [Call_Driver_Open db name]\<rparr>)) \<and>
   (Open h w name s0 = (Inr cn, s1) \<and> \<not> is_ConnBeginTx h (conn_c cn) \<and>
    w < length (breakers s) \<and> \<not> down (breakers s ! w) \<longrightarrow>
      conn_b cn = None \<and>
      Prepare h cn q s =
        (native_result (c_Prepare h (trace s) (conn_c cn) q),
         s\<lparr>trace := trace s @ [Call_Prepare (conn_c cn) q]\<rparr>) \<and>
      Begin h cn s =
        (native_result (c_Begin h (trace s) (conn_c cn)),
         s\<lparr>trace := trace s @ [Call_Begin (conn_c cn)]\<rparr>) \<and>
      BeginTx h cn ctx opts s = (Inl ErrContext, s))"
proof (intro conjI impI)
  show "isl (fst (Open (h\<lparr>is_ConnBeginTx := p\<rparr>) w name s)) = isl (fst (Open h w name s))"
    by (simp add: Open_def Open_db_probe Let_def split: prod.splits sum.splits)
  show "snd (Open (h\<lparr>is_ConnBeginTx := p\<rparr>) w name s) = snd (Open h w name s)"
    by (simp add: Open_def Open_db_probe Let_def split: prod.splits sum.splits)
  show "fst (Open h w name s) \<noteq> Inl ErrContext"
    by (auto simp: Open_def Open_db_def Let_def split: prod.splits sum.splits option.splits if_splits)
  show "fst (Prepare h cn q s) \<noteq> Inl ErrContext"
    by (simp add: Prepare_def native_result_not_own split: option.splits bool.splits)
  show "fst (Begin h cn s) \<noteq> Inl ErrContext"
    by (simp add: Begin_def native_result_not_own split: option.splits bool.splits)
  show "fst (Close h cn s) \<noteq> Some ErrContext"
    by (auto simp: Close_def)
next
  assume "w < length (breakers s0) \<and> \<not> down (breakers s0 ! w) \<and>
    Open_db h w name s0 = (Inr db, s') \<and> Driver_Open h (trace s') db name = Inr c"
  then show "Open h w name s0 =
        (Inr \<lparr>conn_c = c, conn_b = (if is_ConnBeginTx h c then Some c else None),
              conn_db = None, conn_down = w\<rparr>,
         s'\<lparr>trace := trace s' @ [Call_Driver_Open db name]\<rparr>)"
    by (simp add: Open_def Let_def)
next
  assume a: "Open h w name s0 = (Inr cn, s1) \<and> \<not> is_ConnBeginTx h (conn_c cn) \<and>
    w < length (breakers s) \<and> \<not> down (breakers s ! w)"
  with Open_Inr [of h w name s0 cn s1] have c: "conn_down cn = w" "conn_b cn = None"
    by simp_all
  show "conn_b cn = None" by (rule c)
  from a c show "Prepare h cn q s =
        (native_result (c_Prepare h (trace s) (conn_c cn) q),
         s\<lparr>trace := trace s @ [Call_Prepare (conn_c cn) q]\<rparr>)"
    by (simp add: Prepare_gate)
  from a c show "Begin h cn s =
        (native_result (c_Begin h (trace s) (conn_c cn)),
         s\<lparr>trace := trace s @ [Call_Begin (conn_c cn)]\<rparr>)"
    by (simp add: Begin_gate)
  from a c show "BeginTx h cn ctx opts s = (Inl ErrContext, s)"
    by (simp add: BeginTx_gate)
qed

theorem capability_probe_never_fails_witness:
  "Open (stub False) 0 ''test.db'' (world1 ''sqlite3'') = (Inr (conn1 False), world2) \<and>
   \<not> is_ConnBeginTx (stub False) (conn_c (conn1 False)) \<and>
   conn_b (conn1 False) = None \<and>
   Prepare (stub False) (conn1 False) ''select 1'' world2 =
     (Inr ''select 1'', world2\<lparr>trace := trace world2 @ [Call_Prepare 1 ''select 1'']\<rparr>) \<and>
   Begin (stub False) (conn1 False) world2 =
     (Inr 2, world2\<lparr>trace := trace world2 @ [Call_Begin 1]\<rparr>) \<and>
   BeginTx (stub False) (conn1 False) () \<lparr>Isolation = 0, ReadOnly = False\<rparr> world2 =
     (Inl ErrContext, world2)"
proof -
  have a: "Open (stub False) 0 ''test.db'' (world1 ''sqlite3'') = (Inr (conn1 False), world2) \<and>
    \<not> is_ConnBeginTx (stub False) (conn_c (conn1 False)) \<and>
    0 < length (breakers world2) \<and> \<not> down (breakers world2 ! 0)"
    by (simp add: Open_world1) (simp add: stub_def world2_def)
  have b: "0 < length (breakers (world1 ''sqlite3'')) \<and> \<not> down (breakers (world1 ''sqlite3'') ! 0) \<and>
    Open_db (stub False) 0 ''test.db'' (world1 ''sqlite3'') =
      (Inr 0, world2\<lparr>trace := [Call_sql_Open ''sqlite3'' ''test.db'']\<rparr>) \<and>
    Driver_Open (stub False) (trace (world2\<lparr>trace := [Call_sql_Open ''sqlite3'' ''test.db'']\<rparr>))
      0 ''test.db'' = Inr 1"
    by (simp add: Open_db_def stub_def world1_def world2_def)
  note t = capability_probe_never_fails [where h = "stub False" and w = 0 and name = "''test.db''"
      and s = world2 and cn = "conn1 False" and q = "''select 1''" and ?s0.0 = "world1 ''sqlite3''"
      and ?s1.0 = world2 and ctx = "()" and opts = "\<lparr>Isolation = 0, ReadOnly = False\<rparr>"
      and db = 0 and s' = "world2\<lparr>trace := [Call_sql_Open ''sqlite3'' ''test.db'']\<rparr>"
      and c = 1]
  from t b have "Open (stub False) 0 ''test.db'' (world1 ''sqlite3'') =
      (Inr \<lparr>conn_c = 1, conn_b = (if is_ConnBeginTx (stub False) 1 then Some 1 else None),
            conn_db = None, conn_down = 0\<rparr>,
       world2\<lparr>trace := [Call_sql_Open ''sqlite3'' ''test.db'']\<rparr>
         \<lparr>trace := trace (world2\<lparr>trace := [Call_sql_Open ''sqlite3'' ''test.db'']\<rparr>) @
            [Call_Driver_Open 0 ''test.db'']\<rparr>)"
    by blast
  from t a
  have "conn_b (conn1 False) = None \<and>
    Prepare (stub False) (conn1 False) ''select 1'' world2 =
      (native_result (c_Prepare (stub False) (trace world2) (conn_c (conn1 False)) ''select 1''),
       world2\<lparr>trace := trace world2 @ [Call_Prepare (conn_c (conn1 False)) ''select 1'']\<rparr>) \<and>
    Begin (stub False) (conn1 False) world2 =
      (native_result (c_Begin (stub False) (trace world2) (conn_c (conn1 False))),
       world2\<lparr>trace := trace world2 @ [Call_Begin (conn_c (conn1 False))]\<rparr>) \<and>
    BeginTx (stub False) (conn1 False) () \<lparr>Isolation = 0, ReadOnly = False\<rparr> world2 =
      (Inl ErrContext, world2)"
    by blast
  with a show ?thesis
    by (simp add: stub_def conn1_def world2_def)
qed

subsection \<open>The flag is read at each call\<close>




subsection \<open>One handle for each data source name\<close>




end
